theory Spec2Isabelle
  imports Complex_Main "HOL-Library.Log_Nat"
begin

section \<open>BtcSwap: the Bitcoin leg of the atomic swap (src/swap.swaps/BtcSwap.js)\<close>

text \<open>
  A shallow embedding of the class \<^verbatim>\<open>BtcSwap\<close>. The collaborators the class receives
  (the chain gateway functions of \<^verbatim>\<open>options\<close>, the \<^verbatim>\<open>bitcoinjs-lib\<close> environment
  \<^verbatim>\<open>this.app.env.bitcoin\<close> and the key ring \<^verbatim>\<open>this.app.services.auth.accounts.btc\<close>)
  are parameters: fields of the records \<open>btcSwap\<close> and \<open>app\<close>. An awaited gateway call that
  may reject is a function into a sum, \<open>Inl\<close> the rejection. Numbers:
  \<^item> satoshi amounts, confirmations and lock times reported by the gateway are \<open>nat\<close>
    (the spec's u64/u32), values the code computes by subtraction are \<open>int\<close>; JS numbers
    are doubles, exact on integers up to \<open>2^53\<close>, which is the range assumed here;
  \<^item> a \<^verbatim>\<open>BigNumber\<close> is a \<open>rat\<close>, and \<^verbatim>\<open>dividedBy\<close> rounds its quotient to 20
    decimal places;
  \<^item> a confidence is a JS number that need not be an integer: a double, given by the
    rational that is its exact value; \<^verbatim>\<open>toNumber\<close> rounds to the nearest double.
\<close>

subsection \<open>Strings\<close>

type_synonym address = string
type_synonym buffer = "nat list"

text \<open>\<^verbatim>\<open>String.prototype.toUpperCase\<close> and \<^verbatim>\<open>toLowerCase\<close>, on ASCII letters.\<close>

definition toUpperCase :: "string \<Rightarrow> string" where
  "toUpperCase s =
     map (\<lambda>c. case map_of (zip ''abcdefghijklmnopqrstuvwxyz'' ''ABCDEFGHIJKLMNOPQRSTUVWXYZ'') c of
                 Some d \<Rightarrow> d | None \<Rightarrow> c) s"

definition toLowerCase :: "string \<Rightarrow> string" where
  "toLowerCase s =
     map (\<lambda>c. case map_of (zip ''ABCDEFGHIJKLMNOPQRSTUVWXYZ'' ''abcdefghijklmnopqrstuvwxyz'') c of
                 Some d \<Rightarrow> d | None \<Rightarrow> c) s"

text \<open>\<^verbatim>\<open>/literal/.test(s)\<close> for a pattern without metacharacters: \<open>p\<close> occurs in \<open>s\<close>.\<close>

fun starts_with :: "string \<Rightarrow> string \<Rightarrow> bool" where
  "starts_with [] s = True"
| "starts_with (p # ps) [] = False"
| "starts_with (p # ps) (c # cs) = (p = c \<and> starts_with ps cs)"

fun regex_test :: "string \<Rightarrow> string \<Rightarrow> bool" where
  "regex_test p [] = starts_with p []"
| "regex_test p (c # cs) = (starts_with p (c # cs) \<or> regex_test p cs)"

text \<open>Template literals print an integer in decimal.\<close>

definition digit :: "nat \<Rightarrow> char" where
  "digit d = ''0123456789'' ! d"

function show_nat :: "nat \<Rightarrow> string" where
  "show_nat n = (if n < 10 then [digit n] else show_nat (n div 10) @ [digit (n mod 10)])"
  by pat_completeness auto
termination
  by (relation "measure id") auto

definition show_int :: "int \<Rightarrow> string" where
  "show_int i = (if i < 0 then CHR ''-'' # show_nat (nat (- i)) else show_nat (nat i))"

subsection \<open>bignumber.js\<close>

text \<open>
  The two rounding modes the class meets: \<^verbatim>\<open>BigNumber.ROUND_UP\<close> (away from zero), which
  \<^verbatim>\<open>getTxFee\<close> names, and \<^verbatim>\<open>ROUND_HALF_UP\<close> (to the nearest integer, a tie away from
  zero), the library's default \<^verbatim>\<open>ROUNDING_MODE\<close>, which \<^verbatim>\<open>integerValue()\<close> uses when it
  is called without an argument, as everywhere in this class.
\<close>

datatype rounding_mode = ROUND_UP | ROUND_HALF_UP

definition ROUNDING_MODE :: rounding_mode where
  "ROUNDING_MODE = ROUND_HALF_UP"

fun round_to_integer :: "rounding_mode \<Rightarrow> rat \<Rightarrow> int" where
  "round_to_integer ROUND_UP x = (if 0 \<le> x then \<lceil>x\<rceil> else \<lfloor>x\<rfloor>)"
| "round_to_integer ROUND_HALF_UP x = (if 0 \<le> x then \<lfloor>x + 1 / 2\<rfloor> else \<lceil>x - 1 / 2\<rceil>)"

definition multipliedBy :: "rat \<Rightarrow> rat \<Rightarrow> rat" where
  "multipliedBy x y = x * y"

definition integerValue :: "rat \<Rightarrow> int" where
  "integerValue x = round_to_integer ROUNDING_MODE x"

text \<open>
  \<^verbatim>\<open>dividedBy\<close> rounds the quotient to \<^verbatim>\<open>DECIMAL_PLACES\<close> decimal places, 20 by default,
  in the mode \<^verbatim>\<open>ROUNDING_MODE\<close>. The class never divides by 0 (it divides a fee by a
  greater one, and an estimate by \<open>10^8\<close>).
\<close>

definition DECIMAL_PLACES :: nat where
  "DECIMAL_PLACES = 20"

definition dividedBy :: "rat \<Rightarrow> rat \<Rightarrow> rat" where
  "dividedBy x y =
     of_int (round_to_integer ROUNDING_MODE (x / y * 10 ^ DECIMAL_PLACES)) / 10 ^ DECIMAL_PLACES"

definition dp0 :: "rounding_mode \<Rightarrow> rat \<Rightarrow> rat" where
  "dp0 rm x = of_int (round_to_integer rm x)"

text \<open>
  \<^verbatim>\<open>toNumber\<close> gives the double nearest to the value, a tie going to the even
  significand. A double in the binade \<open>[2^e, 2^(e+1))\<close> is a multiple of \<open>2^(e-52)\<close>.
  Exponents are not bounded here: the result is the JS number for magnitudes from
  \<open>2^-1022\<close> up to the largest double, and the quotients of this class are 0 or lie between
  \<open>10^-20\<close> and 1.
\<close>

definition binade :: "rat \<Rightarrow> int" where
  "binade x = (case quotient_of x of (p, q) \<Rightarrow>
                 (let d = bitlen p - bitlen q in if 2 powi d \<le> x then d else d - 1))"

definition round_half_even :: "rat \<Rightarrow> int" where
  "round_half_even m =
     (let f = \<lfloor>m\<rfloor>; d = m - of_int f
      in if d < 1 / 2 then f else if 1 / 2 < d then f + 1 else if even f then f else f + 1)"

definition toNumber :: "rat \<Rightarrow> rat" where
  "toNumber x =
     (if x = 0 then 0
      else (let a = \<bar>x\<bar>; ulp = 2 powi (binade a - 52)
            in sgn x * (of_int (round_half_even (a / ulp)) * ulp)))"

subsection \<open>The data model\<close>

record scriptValues =
  secretHash :: string
  ownerPublicKey :: string
  recipientPublicKey :: string
  lockTime :: nat

record unspent =
  txid :: string
  vout :: nat
  satoshis :: nat
  confirmations :: "nat option"

record txInfo =
  info_txid :: "string option"
  senderAddress :: "string option"
  fees :: "nat option"
  info_size :: "nat option"

record withdrawInfo =
  w_address :: string
  w_txid :: string

text \<open>
  What a promise rejects with or a \<^verbatim>\<open>throw\<close> raises: \<open>Error m\<close> is \<^verbatim>\<open>new Error(m)\<close>
  raised by the class itself, \<open>Rejection m r\<close> is an error object of a collaborator with
  its \<^verbatim>\<open>message\<close> and, when it has one, its \<^verbatim>\<open>res.text\<close>.
\<close>

datatype js_error = Error string | Rejection string "string option"

fun message :: "js_error \<Rightarrow> string" where
  "message (Error m) = m"
| "message (Rejection m r) = m"

fun res_text :: "js_error \<Rightarrow> string option" where
  "res_text (Error m) = None"
| "res_text (Rejection m r) = r"

subsection \<open>bitcoinjs-lib and the key ring\<close>

text \<open>
  An element of the array given to \<^verbatim>\<open>script.compile\<close>: an entry of the \<^verbatim>\<open>opcodes\<close> table
  (\<open>None\<close> when the table has no such name) or a buffer to push.
\<close>

datatype chunk = Op "nat option" | Push buffer

datatype input_script = Unsigned | SignedByAccount | RedeemScriptSig buffer buffer buffer

record tx_input =
  in_txid :: string
  in_vout :: nat
  in_sequence :: "nat option"
  in_script :: input_script

record tx_output =
  out_address :: address
  out_value :: int

text \<open>The calls made on a \<^verbatim>\<open>TransactionBuilder\<close>, kept in order; a new one has lock time 0.\<close>

record tx =
  locktime :: nat
  ins :: "tx_input list"
  outs :: "tx_output list"

definition new_TransactionBuilder :: tx where
  "new_TransactionBuilder = \<lparr>locktime = 0, ins = [], outs = []\<rparr>"

definition setLockTime :: "nat \<Rightarrow> tx \<Rightarrow> tx" where
  "setLockTime l t = t\<lparr>locktime := l\<rparr>"

definition addInput :: "string \<Rightarrow> nat \<Rightarrow> nat option \<Rightarrow> tx \<Rightarrow> tx" where
  "addInput i v s t =
     t\<lparr>ins := ins t @ [\<lparr>in_txid = i, in_vout = v, in_sequence = s, in_script = Unsigned\<rparr>]\<rparr>"

definition addOutput :: "address \<Rightarrow> int \<Rightarrow> tx \<Rightarrow> tx" where
  "addOutput a v t = t\<lparr>outs := outs t @ [\<lparr>out_address = a, out_value = v\<rparr>]\<rparr>"

definition setInputScript :: "nat \<Rightarrow> input_script \<Rightarrow> tx \<Rightarrow> tx" where
  "setInputScript i s t = t\<lparr>ins := (ins t)[i := (ins t ! i)\<lparr>in_script := s\<rparr>]\<rparr>"

text \<open>
  \<^verbatim>\<open>this.app\<close>: the library functions the class calls, for the network chosen by
  \<^verbatim>\<open>_initSwap\<close>, and the account of the local party.
\<close>

record app =
  opcodes :: "string \<Rightarrow> nat option"
  script_compile :: "chunk list \<Rightarrow> buffer"
  script_number_encode :: "nat \<Rightarrow> buffer"
  Buffer_from_hex :: "string \<Rightarrow> buffer"
  p2sh_address :: "buffer \<Rightarrow> address"
  getId :: "tx \<Rightarrow> string"
  getAddress :: address
  getPublicKeyBuffer :: buffer

subsection \<open>createScript\<close>

definition createScript :: "app \<Rightarrow> scriptValues \<Rightarrow> string option \<Rightarrow> address \<times> buffer" where
  "createScript a data hashName_arg =
     (let hashName = (case hashName_arg of None \<Rightarrow> ''ripemd160'' | Some h \<Rightarrow> h);
          hashOpcodeName = ''OP_'' @ toUpperCase hashName;
          hashOpcode = opcodes a hashOpcodeName;
          script = script_compile a
            [Op hashOpcode,
             Push (Buffer_from_hex a (secretHash data)),
             Op (opcodes a ''OP_EQUALVERIFY''),
             Push (Buffer_from_hex a (recipientPublicKey data)),
             Op (opcodes a ''OP_EQUAL''),
             Op (opcodes a ''OP_IF''),
             Push (Buffer_from_hex a (recipientPublicKey data)),
             Op (opcodes a ''OP_CHECKSIG''),
             Op (opcodes a ''OP_ELSE''),
             Push (script_number_encode a (lockTime data)),
             Op (opcodes a ''OP_CHECKLOCKTIMEVERIFY''),
             Op (opcodes a ''OP_DROP''),
             Push (Buffer_from_hex a (ownerPublicKey data)),
             Op (opcodes a ''OP_CHECKSIG''),
             Op (opcodes a ''OP_ENDIF'')];
          scriptAddress = p2sh_address a script
      in (scriptAddress, script))"

subsection \<open>The constructor\<close>

record fee_request =
  req_inSatoshis :: bool
  req_address :: "string option"
  req_speed :: string
  req_method :: string

record options =
  opt_fetchBalance :: "(address \<Rightarrow> js_error + nat) option"
  opt_fetchUnspents :: "(address \<Rightarrow> js_error + unspent list) option"
  opt_broadcastTx :: "(tx \<Rightarrow> js_error + string) option"
  opt_checkWithdraw :: "(address \<Rightarrow> js_error + withdrawInfo option) option"
  opt_feeValue :: "nat option"
  opt_fetchTxInfo :: "(string \<Rightarrow> js_error + txInfo option) option"
  opt_estimateFeeValue :: "(fee_request \<Rightarrow> js_error + nat) option"

text \<open>
  The fields of \<^verbatim>\<open>this\<close> that the constructor sets. \<^verbatim>\<open>broadcastTx\<close> is given the built
  transaction in place of its serialisation \<^verbatim>\<open>toHex()\<close>.
\<close>

record btcSwap =
  fetchBalance :: "address \<Rightarrow> js_error + nat"
  fetchUnspents :: "address \<Rightarrow> js_error + unspent list"
  broadcastTx :: "tx \<Rightarrow> js_error + string"
  checkWithdraw :: "(address \<Rightarrow> js_error + withdrawInfo option) option"
  feeValue :: rat
  fetchTxInfo :: "string \<Rightarrow> js_error + txInfo option"
  estimateFeeValue :: "fee_request \<Rightarrow> js_error + nat"

definition required :: "string \<Rightarrow> js_error" where
  "required name = Error (''BtcSwap: '' @ [CHR 0x22] @ name @ [CHR 0x22] @ '' required'')"

definition constructor :: "options \<Rightarrow> js_error + btcSwap" where
  "constructor options =
     (case opt_fetchBalance options of
        None \<Rightarrow> Inl (required ''fetchBalance'')
      | Some fb \<Rightarrow>
     (case opt_fetchUnspents options of
        None \<Rightarrow> Inl (required ''fetchUnspents'')
      | Some fu \<Rightarrow>
     (case opt_broadcastTx options of
        None \<Rightarrow> Inl (required ''broadcastTx'')
      | Some bt \<Rightarrow>
        Inr \<lparr>fetchBalance = fb,
             fetchUnspents = fu,
             broadcastTx = bt,
             checkWithdraw = opt_checkWithdraw options,
             feeValue = (case opt_feeValue options of
                           None \<Rightarrow> 546
                         | Some v \<Rightarrow> if v = 0 then 546 else of_nat v),
             fetchTxInfo = (case opt_fetchTxInfo options of
                              None \<Rightarrow> (\<lambda>tx_hash. Inr None)
                            | Some f \<Rightarrow> f),
             estimateFeeValue = (case opt_estimateFeeValue options of
                                   None \<Rightarrow> (\<lambda>request. Inr 0)
                                 | Some f \<Rightarrow> f)\<rparr>)))"

subsection \<open>getTxFee\<close>

text \<open>
  Every method that may write \<^verbatim>\<open>this.feeValue\<close> returns the object next to its result;
  a rejected estimate leaves the object as it was.
\<close>

definition getTxFee ::
  "btcSwap \<Rightarrow> bool \<Rightarrow> nat option \<Rightarrow> string option \<Rightarrow> string option \<Rightarrow> (js_error + rat) \<times> btcSwap"
where
  "getTxFee this inSatoshis sz speed_arg addr =
     (let speed = (case speed_arg of None \<Rightarrow> ''fast'' | Some s \<Rightarrow> s) in
      case estimateFeeValue this
             \<lparr>req_inSatoshis = True, req_address = addr, req_speed = speed, req_method = ''swap''\<rparr> of
        Inl err \<Rightarrow> (Inl err, this)
      | Inr estimatedFeeRaw \<Rightarrow>
          (let estimatedFee = of_nat estimatedFeeRaw;
               this' = this\<lparr>feeValue := estimatedFee\<rparr>
           in (Inr (if inSatoshis then estimatedFee
                    else dp0 ROUND_UP (dividedBy estimatedFee 100000000)), this')))"

subsection \<open>filterConfidentUnspents\<close>

definition feesToConfidence ::
  "btcSwap \<Rightarrow> nat \<Rightarrow> nat option \<Rightarrow> string option \<Rightarrow> (js_error + rat) \<times> btcSwap"
where
  "feesToConfidence this fs sz addr =
     (case getTxFee this True sz (Some ''fast'') addr of
        (Inl err, this') \<Rightarrow> (Inl err, this')
      | (Inr currentFastestFee, this') \<Rightarrow>
          (Inr (if of_nat fs < currentFastestFee
                then toNumber (dividedBy (of_nat fs) currentFastestFee)
                else 1), this'))"

text \<open>An absent \<^verbatim>\<open>confirmations\<close> is \<^verbatim>\<open>undefined\<close>, and \<^verbatim>\<open>undefined > 0\<close> is false.\<close>

definition confirmationsToConfidence :: "nat option \<Rightarrow> rat" where
  "confirmationsToConfidence confs = (case confs of None \<Rightarrow> 0 | Some n \<Rightarrow> if n > 0 then 1 else 0)"

text \<open>
  The \<^verbatim>\<open>try\<close> block throws when \<^verbatim>\<open>fetchTxInfo\<close> rejects, when its answer cannot be
  destructured (\<open>None\<close>), when \<^verbatim>\<open>fees\<close> is falsy (absent or 0) and when the fee estimate
  rejects; the \<^verbatim>\<open>catch\<close> block answers each with the confidence from the confirmations.
\<close>

definition fetchConfidence :: "btcSwap \<Rightarrow> rat \<Rightarrow> unspent \<Rightarrow> rat \<times> btcSwap" where
  "fetchConfidence this expectedConfidenceLevel u =
     (let confidenceFromConfirmations = confirmationsToConfidence (confirmations u) in
      if confidenceFromConfirmations \<ge> expectedConfidenceLevel
      then (confidenceFromConfirmations, this)
      else
        (case fetchTxInfo this (txid u) of
           Inl err \<Rightarrow> (confidenceFromConfirmations, this)
         | Inr None \<Rightarrow> (confidenceFromConfirmations, this)
         | Inr (Some info) \<Rightarrow>
             (case fees info of
                None \<Rightarrow> (confidenceFromConfirmations, this)
              | Some fs \<Rightarrow>
                  if fs = 0 then (confidenceFromConfirmations, this)
                  else
                    (case feesToConfidence this fs (info_size info) (senderAddress info) of
                       (Inl err, this') \<Rightarrow> (confidenceFromConfirmations, this')
                     | (Inr confidence, this') \<Rightarrow> (confidence, this')))))"

text \<open>
  \<^verbatim>\<open>Promise.all(unspents.map(fetchConfidence))\<close>: the estimates are taken in index order
  here; they write only \<^verbatim>\<open>this.feeValue\<close>, which no method reads.
\<close>

fun fetchConfidences :: "btcSwap \<Rightarrow> rat \<Rightarrow> unspent list \<Rightarrow> rat list \<times> btcSwap" where
  "fetchConfidences this c [] = ([], this)"
| "fetchConfidences this c (u # us) =
     (case fetchConfidence this c u of
        (x, this1) \<Rightarrow>
          (case fetchConfidences this1 c us of
             (xs, this2) \<Rightarrow> (x # xs, this2)))"

text \<open>
  The threshold is a JS number: whatever rational is given for it stands for the double
  nearest to it, as the literal \<^verbatim>\<open>0.95\<close> does. \<^verbatim>\<open>BigNumber(n)\<close> of a number \<open>n\<close> is the
  shortest decimal that reads back as \<open>n\<close>, which is strictly increasing in \<open>n\<close>, so the
  comparisons \<^verbatim>\<open>BigNumber(a).isGreaterThanOrEqualTo(b)\<close> of two numbers compare the numbers.
\<close>

definition filterConfidentUnspents ::
  "btcSwap \<Rightarrow> unspent list \<Rightarrow> rat option \<Rightarrow> unspent list \<times> btcSwap"
where
  "filterConfidentUnspents this unspents level_arg =
     (let expectedConfidenceLevel = toNumber (case level_arg of None \<Rightarrow> 95 / 100 | Some c \<Rightarrow> c) in
      case fetchConfidences this expectedConfidenceLevel unspents of
        (confidences, this') \<Rightarrow>
          (map fst (filter (\<lambda>(utxo, confidence). confidence \<ge> expectedConfidenceLevel)
                      (zip unspents confidences)), this'))"

subsection \<open>checkScript\<close>

record expected =
  exp_value :: rat
  exp_lockTime :: nat
  exp_recipientPublicKey :: string
  exp_confidence :: "rat option"

text \<open>
  The four diagnostic strings, each with the values its template prints:
  \<^verbatim>\<open>Expected script value: v, got: t, address: a\<close>,
  \<^verbatim>\<open>Expected script lockTime: e, got: l, address: a\<close>,
  \<^verbatim>\<open>Expected script recipient publicKey: e, got: r\<close> and
  \<^verbatim>\<open>Expected script value: v with confidence above c, got: t, address: a\<close>.
\<close>

datatype diagnostic =
    ExpectedScriptValue int nat address
  | ExpectedScriptLockTime nat nat address
  | ExpectedScriptRecipient string string
  | ExpectedScriptValueWithConfidence int rat nat address

definition total_satoshis :: "unspent list \<Rightarrow> nat" where
  "total_satoshis unspents = foldl (\<lambda>summ u. summ + satoshis u) 0 unspents"

text \<open>The result \<open>Inr None\<close> is the \<^verbatim>\<open>undefined\<close> of a call that reaches the end of the body.\<close>

definition checkScript ::
  "btcSwap \<Rightarrow> app \<Rightarrow> scriptValues \<Rightarrow> expected \<Rightarrow> string option
     \<Rightarrow> (js_error + diagnostic option) \<times> btcSwap"
where
  "checkScript this a data expctd hashName =
     (case createScript a data hashName of
        (scriptAddress, script) \<Rightarrow>
     (let expectedConfidence = (case exp_confidence expctd of Some c \<Rightarrow> c | None \<Rightarrow> 95 / 100) in
      case fetchUnspents this scriptAddress of
        Inl err \<Rightarrow> (Inl err, this)
      | Inr unspents \<Rightarrow>
     (let expectedValue = integerValue (multipliedBy (exp_value expctd) 100000000);
          totalUnspent = total_satoshis unspents
      in
      case filterConfidentUnspents this unspents (Some expectedConfidence) of
        (confidentUnspents, this') \<Rightarrow>
     (let totalConfidentUnspent = total_satoshis confidentUnspents in
      if expectedValue > int totalUnspent
      then (Inr (Some (ExpectedScriptValue expectedValue totalUnspent scriptAddress)), this')
      else if exp_lockTime expctd > lockTime data
      then (Inr (Some (ExpectedScriptLockTime (exp_lockTime expctd) (lockTime data) scriptAddress)), this')
      else if exp_recipientPublicKey expctd \<noteq> recipientPublicKey data
      then (Inr (Some (ExpectedScriptRecipient (exp_recipientPublicKey expctd)
                         (recipientPublicKey data))), this')
      else if expectedValue > int totalConfidentUnspent
      then (Inr (Some (ExpectedScriptValueWithConfidence expectedValue expectedConfidence
                         totalConfidentUnspent scriptAddress)), this')
      else (Inr None, this')))))"

subsection \<open>fundScript\<close>

text \<open>
  What a run of \<^verbatim>\<open>fundScript\<close> or \<^verbatim>\<open>withdraw\<close> does to the outside, in order: the call
  of the \<^verbatim>\<open>handleTransactionHash\<close> callback, each call of \<^verbatim>\<open>broadcastTx\<close> with the
  transaction it is given, the call of \<^verbatim>\<open>util.helpers.waitDelay\<close>.
\<close>

datatype event = TransactionHash string | Broadcast tx | WaitDelay nat

text \<open>The value a promise rejects with: a string or an error object.\<close>

datatype reason = Str string | Err js_error

datatype settled = Resolved string | Rejected reason

record run =
  outcome :: settled
  events :: "event list"
  this_after :: btcSwap

text \<open>\<^verbatim>\<open>tx.__INPUTS.forEach((input, index) => tx.sign(index, account))\<close>\<close>

definition sign_inputs :: "tx \<Rightarrow> tx" where
  "sign_inputs t = foldl (\<lambda>t' index. setInputScript index SignedByAccount t') t [0 ..< length (ins t)]"

definition fundScript ::
  "btcSwap \<Rightarrow> app \<Rightarrow> scriptValues \<Rightarrow> rat \<Rightarrow> bool \<Rightarrow> string option \<Rightarrow> run"
where
  "fundScript this a scriptVals amount handleTransactionHash hashName =
     (case createScript a scriptVals hashName of
        (scriptAddress, script) \<Rightarrow>
     (let ownerAddress = getAddress a;
          t = new_TransactionBuilder
      in
      case fetchUnspents this ownerAddress of
        Inl err \<Rightarrow> \<lparr>outcome = Rejected (Err err), events = [], this_after = this\<rparr>
      | Inr unspents \<Rightarrow>
     (let fundValue = integerValue (multipliedBy amount 100000000) in
      case getTxFee this True None None (Some ownerAddress) of
        (Inl err, this') \<Rightarrow> \<lparr>outcome = Rejected (Err err), events = [], this_after = this'\<rparr>
      | (Inr feeValueBN, this') \<Rightarrow>
     (let feeValue = integerValue feeValueBN;
          totalUnspent = int (total_satoshis unspents);
          skipValue = totalUnspent - fundValue - feeValue
      in
      if totalUnspent < feeValue + fundValue
      then \<lparr>outcome = Rejected (Err (Error (''Total less than fee: '' @ show_int totalUnspent
                        @ '' < '' @ show_int feeValue @ '' + '' @ show_int fundValue))),
            events = [], this_after = this'\<rparr>
      else
        (let t1 = foldl (\<lambda>t' u. addInput (txid u) (vout u) None t') t unspents;
             t2 = addOutput scriptAddress fundValue t1;
             t3 = addOutput (getAddress a) skipValue t2;
             txRaw = sign_inputs t3;
             called = (if handleTransactionHash then [TransactionHash (getId a txRaw)] else [])
         in
         case broadcastTx this' txRaw of
           Inr result \<Rightarrow>
             \<lparr>outcome = Resolved result, events = called @ [Broadcast txRaw], this_after = this'\<rparr>
         | Inl err \<Rightarrow>
             \<lparr>outcome = Rejected (Err err), events = called @ [Broadcast txRaw],
              this_after = this'\<rparr>)))))"

subsection \<open>getWithdrawRawTransaction\<close>

record withdrawData =
  scriptVals :: scriptValues
  secret :: string
  destinationAddress :: "string option"

text \<open>
  The two shapes of the result: \<^verbatim>\<open>{ txHex, txId }\<close>, with the transaction in place of
  its serialisation, and \<^verbatim>\<open>{ txId, alreadyWithdrawed: true }\<close>.
\<close>

datatype raw_transaction = TxRaw tx string | AlreadyWithdrawed string

text \<open>\<^verbatim>\<open>secret.replace(/^0x/, '')\<close>\<close>

definition strip_0x :: "string \<Rightarrow> string" where
  "strip_0x s = (if starts_with ''0x'' s then drop 2 s else s)"

text \<open>
  \<^verbatim>\<open>_signTransaction\<close>: the script of the input is the compiled signature, the public
  key of the account, the secret, and the redeem script; the signature itself is not
  modelled.
\<close>

definition signTransaction :: "app \<Rightarrow> buffer \<Rightarrow> string \<Rightarrow> tx \<Rightarrow> nat \<Rightarrow> tx" where
  "signTransaction a script scrt txRaw inputIndex =
     setInputScript inputIndex
       (RedeemScriptSig (getPublicKeyBuffer a) (Buffer_from_hex a (strip_0x scrt)) script) txRaw"

definition getWithdrawRawTransaction ::
  "btcSwap \<Rightarrow> app \<Rightarrow> withdrawData \<Rightarrow> bool \<Rightarrow> string option
     \<Rightarrow> (js_error + raw_transaction) \<times> btcSwap"
where
  "getWithdrawRawTransaction this a data isRefund hashName =
     (let destAddress = (case destinationAddress data of
                           None \<Rightarrow> getAddress a
                         | Some d \<Rightarrow> if d = [] then getAddress a else d)
      in
      case createScript a (scriptVals data) hashName of
        (scriptAddress, script) \<Rightarrow>
     (let t = new_TransactionBuilder in
      case fetchUnspents this scriptAddress of
        Inl err \<Rightarrow> (Inl err, this)
      | Inr unspents \<Rightarrow>
     (case getTxFee this True None None (Some scriptAddress) of
        (Inl err, this') \<Rightarrow> (Inl err, this')
      | (Inr feeValueBN, this') \<Rightarrow>
     (let feeValue = integerValue feeValueBN;
          totalUnspent = int (total_satoshis unspents);
          less_than_fee = Error (''Total less than fee: '' @ show_int totalUnspent
                                   @ '' < '' @ show_int feeValue)
      in
      if of_int totalUnspent < (of_int feeValue :: rat)
      then
        (case checkWithdraw this' of
           Some probe \<Rightarrow>
             (case probe scriptAddress of
                Inl err \<Rightarrow> (Inl err, this')
              | Inr hasWithdraw \<Rightarrow>
                  (case hasWithdraw of
                     Some w \<Rightarrow>
                       if toLowerCase (w_address w) = toLowerCase destAddress
                       then (Inr (AlreadyWithdrawed (w_txid w)), this')
                       else (Inl less_than_fee, this')
                   | None \<Rightarrow> (Inl less_than_fee, this')))
         | None \<Rightarrow> (Inl less_than_fee, this'))
      else
        (let t1 = (if isRefund then setLockTime (lockTime (scriptVals data)) t else t);
             t2 = foldl (\<lambda>t' u. addInput (txid u) (vout u) (Some 0xfffffffe) t') t1 unspents;
             t3 = addOutput destAddress (totalUnspent - feeValue) t2;
             txRaw = foldl (signTransaction a script (secret data)) t3 [0 ..< length (ins t3)];
             txId = getId a txRaw
         in (Inr (TxRaw txRaw txId), this'))))))"

subsection \<open>checkTX, withdraw and refund\<close>

text \<open>A string is truthy when it is present and not empty.\<close>

definition truthy :: "string option \<Rightarrow> bool" where
  "truthy s = (case s of None \<Rightarrow> False | Some v \<Rightarrow> v \<noteq> [])"

definition checkTX :: "btcSwap \<Rightarrow> string \<Rightarrow> js_error + bool" where
  "checkTX this txID =
     (case fetchTxInfo this txID of
        Inl err \<Rightarrow> Inl err
      | Inr None \<Rightarrow> Inr False
      | Inr (Some info) \<Rightarrow>
          Inr (truthy (senderAddress info) \<and> truthy (info_txid info)
               \<and> map_option toLowerCase (info_txid info) = Some (toLowerCase txID)))"

text \<open>The \<^verbatim>\<open>catch\<close> block of \<^verbatim>\<open>withdraw\<close>: the value the promise is rejected with.\<close>

definition withdraw_catch :: "js_error \<Rightarrow> reason" where
  "withdraw_catch error =
     (if (case res_text error of None \<Rightarrow> False | Some text \<Rightarrow> regex_test ''non-final'' text)
      then Str ''Try it later''
      else if regex_test ''Total less than fee'' (message error)
      then (if regex_test ''Total less than fee: 0'' (message error)
            then Str ''Address is empty''
            else Str ''Less than fee'')
      else Err error)"

text \<open>
  \<^verbatim>\<open>reject('TX not found. Try it later. ', txRaw.txId)\<close>: a promise's \<^verbatim>\<open>reject\<close> takes one
  argument, the reason; a second argument is dropped.
\<close>

definition reject :: "reason \<Rightarrow> string \<Rightarrow> settled" where
  "reject r dropped = Rejected r"

definition withdraw :: "btcSwap \<Rightarrow> app \<Rightarrow> withdrawData \<Rightarrow> bool \<Rightarrow> string option \<Rightarrow> run" where
  "withdraw this a data isRefund hashName =
     (case getWithdrawRawTransaction this a data isRefund hashName of
        (Inl error, this') \<Rightarrow>
          \<lparr>outcome = Rejected (withdraw_catch error), events = [], this_after = this'\<rparr>
      | (Inr (AlreadyWithdrawed txId), this') \<Rightarrow>
          \<lparr>outcome = Resolved txId, events = [], this_after = this'\<rparr>
      | (Inr (TxRaw txHex txId), this') \<Rightarrow>
          (case broadcastTx this' txHex of
             Inl error \<Rightarrow>
               \<lparr>outcome = Rejected (withdraw_catch error), events = [Broadcast txHex],
                this_after = this'\<rparr>
           | Inr result \<Rightarrow>
               (case checkTX this' txId of
                  Inl error \<Rightarrow>
                    \<lparr>outcome = Rejected (withdraw_catch error),
                     events = [Broadcast txHex, WaitDelay 10], this_after = this'\<rparr>
                | Inr txSuccess \<Rightarrow>
                    if txSuccess
                    then \<lparr>outcome = Resolved txId,
                          events = [Broadcast txHex, WaitDelay 10], this_after = this'\<rparr>
                    else \<lparr>outcome = reject (Str ''TX not found. Try it later. '') txId,
                          events = [Broadcast txHex, WaitDelay 10], this_after = this'\<rparr>)))"

definition refund :: "btcSwap \<Rightarrow> app \<Rightarrow> withdrawData \<Rightarrow> string option \<Rightarrow> run" where
  "refund this a data hashName = withdraw this a data True hashName"

section \<open>What the specification says, and examples\<close>

text \<open>
  The redeem script of the specification (section 4.1), as the array of opcodes and
  pushes it lists, for the hash opcode named \<open>HASH_OP\<close>.
\<close>

definition spec_redeem_script :: "app \<Rightarrow> string \<Rightarrow> scriptValues \<Rightarrow> chunk list" where
  "spec_redeem_script a HASH_OP v =
     [Op (opcodes a HASH_OP), Push (Buffer_from_hex a (secretHash v)), Op (opcodes a ''OP_EQUALVERIFY''),
      Push (Buffer_from_hex a (recipientPublicKey v)), Op (opcodes a ''OP_EQUAL''),
      Op (opcodes a ''OP_IF''),
        Push (Buffer_from_hex a (recipientPublicKey v)), Op (opcodes a ''OP_CHECKSIG''),
      Op (opcodes a ''OP_ELSE''),
        Push (script_number_encode a (lockTime v)), Op (opcodes a ''OP_CHECKLOCKTIMEVERIFY''),
        Op (opcodes a ''OP_DROP''),
        Push (Buffer_from_hex a (ownerPublicKey v)), Op (opcodes a ''OP_CHECKSIG''),
      Op (opcodes a ''OP_ENDIF'')]"

text \<open>What an input of a built transaction spends, and with which sequence number.\<close>

definition spent_outpoint :: "tx_input \<Rightarrow> string \<times> nat \<times> nat option" where
  "spent_outpoint i = (in_txid i, in_vout i, in_sequence i)"

text \<open>
  A small environment to run the methods in: a library whose compiled script is the list
  of the opcode numbers and of the pushed buffers with their lengths, an HTLC of lock time
  1700000000, and a gateway that knows one confirmed output of 10000000 satoshis and
  quotes a fee of 10000 satoshis.
\<close>

definition ex_app :: app where
  "ex_app =
     \<lparr>opcodes = map_of [(''OP_RIPEMD160'', 166), (''OP_SHA256'', 168), (''OP_EQUALVERIFY'', 136),
                        (''OP_EQUAL'', 135), (''OP_IF'', 99), (''OP_CHECKSIG'', 172),
                        (''OP_ELSE'', 103), (''OP_CHECKLOCKTIMEVERIFY'', 177), (''OP_DROP'', 117),
                        (''OP_ENDIF'', 104)],
      script_compile = (\<lambda>chunks. concat (map (\<lambda>c. case c of Op None \<Rightarrow> []
                                                      | Op (Some n) \<Rightarrow> [n]
                                                      | Push b \<Rightarrow> length b # b) chunks)),
      script_number_encode = (\<lambda>n. [n]),
      Buffer_from_hex = (\<lambda>hex. map of_char hex),
      p2sh_address = (\<lambda>script. ''2N-htlc''),
      getId = (\<lambda>t. ''id-of-tx''),
      getAddress = ''m-owner'',
      getPublicKeyBuffer = [2, 170]\<rparr>"

definition ex_values :: scriptValues where
  "ex_values = \<lparr>secretHash = ''c0'', ownerPublicKey = ''02aa'', recipientPublicKey = ''03bb'',
                lockTime = 1700000000\<rparr>"

definition ex_unspent :: unspent where
  "ex_unspent = \<lparr>txid = ''f00d'', vout = 1, satoshis = 10000000, confirmations = Some 3\<rparr>"

definition ex_swap :: btcSwap where
  "ex_swap =
     \<lparr>fetchBalance = (\<lambda>addr. Inr 10000000),
      fetchUnspents = (\<lambda>addr. Inr [ex_unspent]),
      broadcastTx = (\<lambda>t. Inr ''sent''),
      checkWithdraw = None,
      feeValue = 546,
      fetchTxInfo = (\<lambda>tx_hash. Inr None),
      estimateFeeValue = (\<lambda>request. Inr 10000)\<rparr>"

definition ex_data :: withdrawData where
  "ex_data = \<lparr>scriptVals = ex_values, secret = ''0x5ec2e7'', destinationAddress = None\<rparr>"

text \<open>The same gateway once the HTLC has been spent to the owner, with a probe that says so.\<close>

definition ex_spent :: btcSwap where
  "ex_spent =
     ex_swap\<lparr>fetchUnspents := (\<lambda>addr. Inr []),
             checkWithdraw :=
               Some (\<lambda>addr. Inr (Some \<lparr>w_address = ''M-Owner'', w_txid = ''beef''\<rparr>))\<rparr>"

definition ex_expected :: expected where
  "ex_expected = \<lparr>exp_value = 1 / 10, exp_lockTime = 1700000000, exp_recipientPublicKey = ''03bb'',
                  exp_confidence = None\<rparr>"

text \<open>
  The confidence of the specification (section 4.3). Step 3 is \<open>min(1, fees / f*)\<close>, taken
  here in exact arithmetic; a fee over a fast fee of 0 counts as 1 and a fee of 0 as 0.
\<close>

definition spec_fee_ratio :: "nat \<Rightarrow> nat \<Rightarrow> rat" where
  "spec_fee_ratio f fstar =
     (if f = 0 then 0 else if fstar = 0 then 1 else min 1 (of_nat f / of_nat fstar))"








text \<open>The options of an engine that is given the three required functions and nothing else.\<close>

definition ex_options :: options where
  "ex_options =
     \<lparr>opt_fetchBalance = Some (\<lambda>addr. Inr 10000000),
      opt_fetchUnspents = Some (\<lambda>addr. Inr [ex_unspent]),
      opt_broadcastTx = Some (\<lambda>t. Inr ''sent''),
      opt_checkWithdraw = None,
      opt_feeValue = None,
      opt_fetchTxInfo = None,
      opt_estimateFeeValue = None\<rparr>"

text \<open>
  An amount in BTC as satoshis, to the nearest integer and a tie away from zero; and the
  truncation the specification speaks of (section 3, Amounts).
\<close>

definition nearest_satoshis :: "rat \<Rightarrow> int" where
  "nearest_satoshis amount =
     (if amount < 0 then - 1 else 1) * \<lfloor>\<bar>amount * 100000000\<bar> + 1 / 2\<rfloor>"

definition spec_truncated_satoshis :: "rat \<Rightarrow> int" where
  "spec_truncated_satoshis amount = \<lfloor>amount * 100000000\<rfloor>"

text \<open>A gateway that knows one output of 1 satoshi and quotes a fee of 0.\<close>

definition ex_satoshi :: unspent where
  "ex_satoshi = \<lparr>txid = ''d057'', vout = 0, satoshis = 1, confirmations = Some 6\<rparr>"

definition ex_dust :: btcSwap where
  "ex_dust = ex_swap\<lparr>fetchUnspents := (\<lambda>addr. Inr [ex_satoshi]),
                     estimateFeeValue := (\<lambda>request. Inr 0)\<rparr>"

section \<open>Properties\<close>

subsection \<open>Sums, roundings and strings\<close>

lemma foldl_satoshis:
  "foldl (\<lambda>summ u. summ + satoshis u) acc us = acc + sum_list (map satoshis us)"
  by (induction us arbitrary: acc) auto

lemma total_satoshis_sum_list: "total_satoshis us = sum_list (map satoshis us)"
  by (simp add: total_satoshis_def foldl_satoshis)

lemma integerValue_of_int: "integerValue (of_int n) = n"
  by (simp add: integerValue_def ROUNDING_MODE_def) linarith

lemma integerValue_of_nat: "integerValue (of_nat n) = int n"
  using integerValue_of_int [of "int n"] by simp

lemma toUpperCase_ripemd160: "toUpperCase ''ripemd160'' = ''RIPEMD160''"
  by (simp add: toUpperCase_def)

lemma toUpperCase_sha256: "toUpperCase ''sha256'' = ''SHA256''"
  by (simp add: toUpperCase_def)

lemma starts_with_append: "starts_with p (p @ r)"
  by (induction p) auto

lemma regex_test_prefix: "regex_test p (p @ r)"
  by (cases "p @ r") (use starts_with_append [of p r] in auto)

subsection \<open>Doubles\<close>

text \<open>The binade found by \<open>binade\<close> starts at or below the value.\<close>

lemma binade_le: assumes "0 < x" shows "2 powi (binade x) \<le> x"
proof -
  obtain p q where pq: "quotient_of x = (p, q)" by (cases "quotient_of x")
  then have q: "0 < q" and x: "x = of_int p / of_int q"
    by (simp_all add: quotient_of_denom_pos quotient_of_div)
  with assms have p: "0 < p" by (simp add: zero_less_divide_iff)
  let ?d = "bitlen p - bitlen q"
  have bp: "1 \<le> bitlen p" using p by (simp add: bitlen_alt_def)
  have "(2::int) ^ nat (bitlen p - 1) \<le> p" using bitlen_bounds [OF p] by simp
  then have "(of_int ((2::int) ^ nat (bitlen p - 1)) :: rat) \<le> of_int p"
    by (simp only: of_int_le_iff)
  then have lo: "(2::rat) powi (bitlen p - 1) \<le> of_int p"
    using bp by (simp add: power_int_def)
  have "q < 2 ^ nat (bitlen q)" using bitlen_bounds [OF q] by simp
  then have "(of_int q :: rat) < of_int ((2::int) ^ nat (bitlen q))"
    by (simp only: of_int_less_iff)
  then have hi: "(of_int q :: rat) \<le> 2 powi (bitlen q)"
    using bitlen_nonneg [of q] by (simp add: power_int_def)
  have "?d - 1 = (bitlen p - 1) - bitlen q" by simp
  moreover have "(2::rat) powi ((bitlen p - 1) - bitlen q) = 2 powi (bitlen p - 1) / 2 powi (bitlen q)"
    by (rule power_int_diff) simp
  ultimately have "(2::rat) powi (?d - 1) = 2 powi (bitlen p - 1) / 2 powi (bitlen q)"
    by (simp only:)
  also have "\<dots> \<le> of_int p / 2 powi (bitlen q)"
    using lo by (simp add: divide_right_mono)
  also have "\<dots> \<le> of_int p / of_int q"
    using hi p q by (simp add: divide_left_mono)
  finally have "(2::rat) powi (?d - 1) \<le> x" using x by simp
  then show ?thesis
    using pq by (simp add: binade_def Let_def)
qed

lemma round_half_even_le: "m \<le> of_int N \<Longrightarrow> round_half_even m \<le> N"
  unfolding round_half_even_def Let_def by (auto simp add: not_less) linarith+




lemma binade_le_0: assumes "0 < x" "x \<le> 1" shows "binade x \<le> 0"
proof (rule ccontr)
  assume "\<not> binade x \<le> 0"
  then have "1 \<le> binade x" by simp
  then have "(2::rat) powi 1 \<le> 2 powi (binade x)"
    by (intro power_int_increasing) simp_all
  with binade_le [OF assms(1)] assms(2) show False by simp
qed

lemma toNumber_le_1: assumes "0 \<le> x" "x \<le> 1" shows "toNumber x \<le> 1"
proof (cases "x = 0")
  case True then show ?thesis by (simp add: toNumber_def)
next
  case False
  with assms have pos: "0 < x" by simp
  let ?e = "binade x"
  let ?ulp = "(2::rat) powi (?e - 52)"
  have e: "?e \<le> 0" using binade_le_0 [OF pos assms(2)] .
  have ulp: "0 < ?ulp" by (simp add: power_int_def)
  have inv: "1 / ?ulp = of_int (2 ^ nat (52 - ?e))"
    using e by (simp add: power_int_def field_simps)
  have "x / ?ulp \<le> 1 / ?ulp" using assms(2) ulp by (simp add: divide_right_mono)
  then have "round_half_even (x / ?ulp) \<le> 2 ^ nat (52 - ?e)"
    unfolding inv by (rule round_half_even_le)
  then have "(of_int (round_half_even (x / ?ulp)) :: rat) \<le> of_int (2 ^ nat (52 - ?e))"
    by (simp only: of_int_le_iff)
  then have "of_int (round_half_even (x / ?ulp)) * ?ulp \<le> of_int (2 ^ nat (52 - ?e)) * ?ulp"
    using ulp by (simp add: mult_right_mono)
  also have "\<dots> = 1" using inv ulp by (simp add: field_simps)
  finally show ?thesis using pos by (simp add: toNumber_def Let_def)
qed



subsection \<open>The transaction builder\<close>

lemma ins_foldl_addInput:
  "ins (foldl (\<lambda>t' u. addInput (txid u) (vout u) s t') t us) =
     ins t @ map (\<lambda>u. \<lparr>in_txid = txid u, in_vout = vout u, in_sequence = s,
                        in_script = Unsigned\<rparr>) us"
  by (induction us arbitrary: t) (auto simp: addInput_def)

lemma outs_foldl_addInput:
  "outs (foldl (\<lambda>t' u. addInput (txid u) (vout u) s t') t us) = outs t"
  by (induction us arbitrary: t) (auto simp: addInput_def)

lemma locktime_foldl_addInput:
  "locktime (foldl (\<lambda>t' u. addInput (txid u) (vout u) s t') t us) = locktime t"
  by (induction us arbitrary: t) (auto simp: addInput_def)

lemma map_update_same: "(\<And>x. f (g x) = f x) \<Longrightarrow> map f (xs[i := g (xs ! i)]) = map f xs"
  by (cases "i < length xs") (simp_all add: map_update list_update_same_conv list_update_beyond)

lemma outpoints_setInputScript:
  "map spent_outpoint (ins (setInputScript i s t)) = map spent_outpoint (ins t)"
  unfolding setInputScript_def
  by (simp add: map_update_same [where g = "\<lambda>x. x\<lparr>in_script := s\<rparr>"] spent_outpoint_def)

lemma outs_setInputScript: "outs (setInputScript i s t) = outs t"
  by (simp add: setInputScript_def)

lemma locktime_setInputScript: "locktime (setInputScript i s t) = locktime t"
  by (simp add: setInputScript_def)

text \<open>Signing changes the scripts of the inputs and nothing else.\<close>

lemma foldl_setInputScript:
  "map spent_outpoint (ins (foldl (\<lambda>t' i. setInputScript i (s i) t') t js)) =
     map spent_outpoint (ins t)
   \<and> outs (foldl (\<lambda>t' i. setInputScript i (s i) t') t js) = outs t
   \<and> locktime (foldl (\<lambda>t' i. setInputScript i (s i) t') t js) = locktime t"
  by (induction js arbitrary: t)
     (simp_all add: outpoints_setInputScript outs_setInputScript locktime_setInputScript)

lemma sign_inputs_keeps:
  "map spent_outpoint (ins (sign_inputs t)) = map spent_outpoint (ins t)"
  "outs (sign_inputs t) = outs t"
  "locktime (sign_inputs t) = locktime t"
  unfolding sign_inputs_def using foldl_setInputScript [of "\<lambda>i. SignedByAccount" t] by simp_all

lemma signTransaction_keeps:
  "map spent_outpoint (ins (foldl (signTransaction a script scrt) t js)) =
     map spent_outpoint (ins t)"
  "outs (foldl (signTransaction a script scrt) t js) = outs t"
  "locktime (foldl (signTransaction a script scrt) t js) = locktime t"
proof -
  let ?sig = "RedeemScriptSig (getPublicKeyBuffer a) (Buffer_from_hex a (strip_0x scrt)) script"
  have "signTransaction a script scrt = (\<lambda>t' i. setInputScript i ?sig t')"
    by (intro ext) (simp add: signTransaction_def)
  then show "map spent_outpoint (ins (foldl (signTransaction a script scrt) t js)) =
      map spent_outpoint (ins t)"
    and "outs (foldl (signTransaction a script scrt) t js) = outs t"
    and "locktime (foldl (signTransaction a script scrt) t js) = locktime t"
    using foldl_setInputScript [of "\<lambda>i. ?sig" t js] by simp_all
qed

subsection \<open>The redeem script\<close>

text \<open>
  C1. For every script values and each of the hash names \<^verbatim>\<open>ripemd160\<close> and \<^verbatim>\<open>sha256\<close>, the
  script of \<open>createScript\<close> is the compilation of exactly: the hash opcode, the secret
  hash, OP_EQUALVERIFY, the recipient's key, OP_EQUAL, OP_IF, the recipient's key,
  OP_CHECKSIG, OP_ELSE, the lock time as a script number, OP_CHECKLOCKTIMEVERIFY, OP_DROP,
  the owner's key, OP_CHECKSIG, OP_ENDIF; the hash opcode is OP_RIPEMD160 for
  \<^verbatim>\<open>ripemd160\<close> (also the default of the parameter) and OP_SHA256 for \<^verbatim>\<open>sha256\<close>.
\<close>

theorem createScript_redeem_script:
  "snd (createScript a data (Some ''ripemd160'')) =
     script_compile a (spec_redeem_script a ''OP_RIPEMD160'' data)
   \<and> snd (createScript a data (Some ''sha256'')) =
     script_compile a (spec_redeem_script a ''OP_SHA256'' data)
   \<and> snd (createScript a data None) =
     script_compile a (spec_redeem_script a ''OP_RIPEMD160'' data)"
  by (simp add: createScript_def spec_redeem_script_def Let_def
      toUpperCase_ripemd160 toUpperCase_sha256)

subsection \<open>The withdraw and refund transaction\<close>

lemma getWithdrawRawTransaction_builds:
  assumes "fetchUnspents this (fst (createScript a (scriptVals data) hashName)) = Inr unspents"
    and "estimateFeeValue this \<lparr>req_inSatoshis = True,
           req_address = Some (fst (createScript a (scriptVals data) hashName)),
           req_speed = ''fast'', req_method = ''swap''\<rparr> = Inr quote"
    and "quote \<le> total_satoshis unspents"
  shows "\<exists>txRaw.
      getWithdrawRawTransaction this a data isRefund hashName =
        (Inr (TxRaw txRaw (getId a txRaw)), this\<lparr>feeValue := of_nat quote\<rparr>)
      \<and> locktime txRaw = (if isRefund then lockTime (scriptVals data) else 0)
      \<and> map spent_outpoint (ins txRaw) = map (\<lambda>u. (txid u, vout u, Some 0xfffffffe)) unspents
      \<and> outs txRaw = [\<lparr>out_address = (case destinationAddress data of
                                          None \<Rightarrow> getAddress a
                                        | Some d \<Rightarrow> if d = [] then getAddress a else d),
                       out_value = int (total_satoshis unspents) - int quote\<rparr>]"
proof -
  obtain scriptAddress script
    where cs: "createScript a (scriptVals data) hashName = (scriptAddress, script)"
    by (cases "createScript a (scriptVals data) hashName")
  from assms cs show ?thesis
    by (simp add: getWithdrawRawTransaction_def getTxFee_def Let_def integerValue_of_nat
        signTransaction_keeps ins_foldl_addInput outs_foldl_addInput locktime_foldl_addInput
        addOutput_def setLockTime_def new_TransactionBuilder_def spent_outpoint_def comp_def)
qed

text \<open>
  C3. When the outputs at the HTLC address total at least the fee, the transaction that
  \<open>getWithdrawRawTransaction\<close> builds has the lock time of the script values for a refund
  and 0 otherwise, spends every fetched output, in order, with sequence number
  0xFFFFFFFE, and has one output: the total less the fee, paid to the destination
  address, which is the address of the local account when none is given.
\<close>

theorem withdraw_transaction_shape:
  assumes "fetchUnspents this (fst (createScript a (scriptVals data) hashName)) = Inr unspents"
    and "estimateFeeValue this \<lparr>req_inSatoshis = True,
           req_address = Some (fst (createScript a (scriptVals data) hashName)),
           req_speed = ''fast'', req_method = ''swap''\<rparr> = Inr quote"
    and "quote \<le> total_satoshis unspents"
  shows "\<exists>txRaw txId this'.
      getWithdrawRawTransaction this a data isRefund hashName = (Inr (TxRaw txRaw txId), this')
      \<and> locktime txRaw = (if isRefund then lockTime (scriptVals data) else 0)
      \<and> map spent_outpoint (ins txRaw) = map (\<lambda>u. (txid u, vout u, Some 0xfffffffe)) unspents
      \<and> outs txRaw = [\<lparr>out_address = (case destinationAddress data of
                                          None \<Rightarrow> getAddress a
                                        | Some d \<Rightarrow> if d = [] then getAddress a else d),
                       out_value = int (total_satoshis unspents) - int quote\<rparr>]"
  using getWithdrawRawTransaction_builds [OF assms, of isRefund] by blast

theorem withdraw_transaction_shape_witness:
  "fetchUnspents ex_swap (fst (createScript ex_app (scriptVals ex_data) None)) = Inr [ex_unspent]
   \<and> estimateFeeValue ex_swap \<lparr>req_inSatoshis = True,
         req_address = Some (fst (createScript ex_app (scriptVals ex_data) None)),
         req_speed = ''fast'', req_method = ''swap''\<rparr> = Inr 10000
   \<and> (10000::nat) \<le> total_satoshis [ex_unspent]
   \<and> (\<exists>txRaw txId this'.
        getWithdrawRawTransaction ex_swap ex_app ex_data True None = (Inr (TxRaw txRaw txId), this')
        \<and> locktime txRaw = 1700000000
        \<and> map spent_outpoint (ins txRaw) = [(''f00d'', 1, Some 0xfffffffe)]
        \<and> outs txRaw = [\<lparr>out_address = ''m-owner'', out_value = 9990000\<rparr>])"
proof -
  have f: "fetchUnspents ex_swap (fst (createScript ex_app (scriptVals ex_data) None)) =
      Inr [ex_unspent]"
    by (simp add: ex_swap_def)
  have e: "estimateFeeValue ex_swap \<lparr>req_inSatoshis = True,
         req_address = Some (fst (createScript ex_app (scriptVals ex_data) None)),
         req_speed = ''fast'', req_method = ''swap''\<rparr> = Inr 10000"
    by (simp add: ex_swap_def)
  have t: "(10000::nat) \<le> total_satoshis [ex_unspent]"
    by (simp add: total_satoshis_def ex_unspent_def)
  show ?thesis
    using withdraw_transaction_shape [OF f e t, of True] f e t
    by (simp add: ex_data_def ex_values_def ex_unspent_def ex_app_def total_satoshis_def)
qed

subsection \<open>Refund\<close>

text \<open>
  C10. For every data and hash name, \<open>refund\<close> returns what \<open>withdraw\<close> returns when it
  is called with the same data and hash name and \<open>isRefund\<close> true: the same outcome, the
  same calls to the outside and the same object afterwards.
\<close>

theorem refund_is_withdraw_with_isRefund:
  "refund this a data hashName = withdraw this a data True hashName"
  by (simp add: refund_def)

subsection \<open>The funding transaction\<close>

lemma fundScript_run:
  assumes "fetchUnspents this (getAddress a) = Inr unspents"
    and "estimateFeeValue this \<lparr>req_inSatoshis = True, req_address = Some (getAddress a),
           req_speed = ''fast'', req_method = ''swap''\<rparr> = Inr quote"
    and "T = int (total_satoshis unspents)"
    and "fundValue = integerValue (multipliedBy amount 100000000)"
    and "r = fundScript this a vals amount callback hashName"
  shows "(T < fundValue + int quote \<longrightarrow>
            outcome r = Rejected (Err (Error (''Total less than fee: '' @ show_int T @ '' < ''
                          @ show_int (int quote) @ '' + '' @ show_int fundValue)))
            \<and> events r = [])
       \<and> (\<not> T < fundValue + int quote \<longrightarrow>
            (\<exists>txRaw.
               events r = (if callback then [TransactionHash (getId a txRaw)] else [])
                            @ [Broadcast txRaw]
               \<and> outcome r = (case broadcastTx this txRaw of
                                 Inr result \<Rightarrow> Resolved result
                               | Inl err \<Rightarrow> Rejected (Err err))
               \<and> map spent_outpoint (ins txRaw) = map (\<lambda>u. (txid u, vout u, None)) unspents
               \<and> outs txRaw =
                   [\<lparr>out_address = fst (createScript a vals hashName), out_value = fundValue\<rparr>,
                    \<lparr>out_address = getAddress a, out_value = T - fundValue - int quote\<rparr>]
               \<and> T = fundValue + (T - fundValue - int quote) + int quote
               \<and> 0 \<le> T - fundValue - int quote))"
proof -
  obtain scriptAddress script
    where cs: "createScript a vals hashName = (scriptAddress, script)"
    by (cases "createScript a vals hashName")
  show ?thesis
  proof (cases "T < fundValue + int quote")
    case True
    with assms cs show ?thesis
      by (simp add: fundScript_def getTxFee_def Let_def integerValue_of_nat add.commute)
  next
    case False
    let ?t3 = "addOutput (getAddress a) (T - fundValue - int quote)
                 (addOutput scriptAddress fundValue
                   (foldl (\<lambda>t' u. addInput (txid u) (vout u) None t') new_TransactionBuilder unspents))"
    have shape: "map spent_outpoint (ins (sign_inputs ?t3)) = map (\<lambda>u. (txid u, vout u, None)) unspents"
      "outs (sign_inputs ?t3) = [\<lparr>out_address = scriptAddress, out_value = fundValue\<rparr>,
                    \<lparr>out_address = getAddress a, out_value = T - fundValue - int quote\<rparr>]"
      by (simp_all add: sign_inputs_keeps addOutput_def ins_foldl_addInput outs_foldl_addInput
          new_TransactionBuilder_def spent_outpoint_def comp_def)
    from False assms cs shape show ?thesis
      by (cases "broadcastTx this (sign_inputs ?t3)")
         (auto simp add: fundScript_def getTxFee_def Let_def integerValue_of_nat add.commute)
  qed
qed

text \<open>
  C2. Given the outputs fetched for the owner's address, of total \<open>T\<close>, the funding
  amount \<open>fundValue\<close> and the fee quoted by the oracle: when \<open>T < fundValue + fee\<close>,
  \<open>fundScript\<close> rejects with the error \<^verbatim>\<open>Total less than fee\<close>, which carries the three
  numbers, and hands nothing to \<open>broadcastTx\<close>; otherwise it hands over one transaction,
  which spends every fetched output, in order, and has exactly two outputs,
  \<open>fundValue\<close> to the HTLC address and then \<open>T - fundValue - fee\<close> to the owner's
  address, and the promise settles as that broadcast does. So the inputs total
  \<open>fundValue + change + fee\<close>, the change is not negative, and the fee is the quote.
\<close>

theorem fundScript_funding_transaction:
  assumes "fetchUnspents this (getAddress a) = Inr unspents"
    and "estimateFeeValue this \<lparr>req_inSatoshis = True, req_address = Some (getAddress a),
           req_speed = ''fast'', req_method = ''swap''\<rparr> = Inr quote"
    and "T = int (total_satoshis unspents)"
    and "fundValue = integerValue (multipliedBy amount 100000000)"
    and "r = fundScript this a vals amount callback hashName"
  shows "(T < fundValue + int quote \<longrightarrow>
            outcome r = Rejected (Err (Error (''Total less than fee: '' @ show_int T @ '' < ''
                          @ show_int (int quote) @ '' + '' @ show_int fundValue)))
            \<and> events r = [])
       \<and> (\<not> T < fundValue + int quote \<longrightarrow>
            (\<exists>txRaw.
               events r = (if callback then [TransactionHash (getId a txRaw)] else [])
                            @ [Broadcast txRaw]
               \<and> outcome r = (case broadcastTx this txRaw of
                                 Inr result \<Rightarrow> Resolved result
                               | Inl err \<Rightarrow> Rejected (Err err))
               \<and> map spent_outpoint (ins txRaw) = map (\<lambda>u. (txid u, vout u, None)) unspents
               \<and> outs txRaw =
                   [\<lparr>out_address = fst (createScript a vals hashName), out_value = fundValue\<rparr>,
                    \<lparr>out_address = getAddress a, out_value = T - fundValue - int quote\<rparr>]
               \<and> T = fundValue + (T - fundValue - int quote) + int quote
               \<and> 0 \<le> T - fundValue - int quote))"
  using fundScript_run [OF assms] .


theorem fundScript_funding_transaction_witness:
  "fetchUnspents ex_swap (getAddress ex_app) = Inr [ex_unspent]
   \<and> estimateFeeValue ex_swap \<lparr>req_inSatoshis = True, req_address = Some (getAddress ex_app),
         req_speed = ''fast'', req_method = ''swap''\<rparr> = Inr 10000
   \<and> outcome (fundScript ex_swap ex_app ex_values 1 True None) =
        Rejected (Err (Error ''Total less than fee: 10000000 < 10000 + 100000000''))
   \<and> events (fundScript ex_swap ex_app ex_values 1 True None) = []
   \<and> (\<exists>txRaw.
         events (fundScript ex_swap ex_app ex_values (1 / 100) True None) =
           [TransactionHash ''id-of-tx'', Broadcast txRaw]
         \<and> outcome (fundScript ex_swap ex_app ex_values (1 / 100) True None) = Resolved ''sent''
         \<and> map spent_outpoint (ins txRaw) = [(''f00d'', 1, None)]
         \<and> outs txRaw = [\<lparr>out_address = ''2N-htlc'', out_value = 1000000\<rparr>,
                          \<lparr>out_address = ''m-owner'', out_value = 8990000\<rparr>])"
proof -
  have f: "fetchUnspents ex_swap (getAddress ex_app) = Inr [ex_unspent]"
    by (simp add: ex_swap_def)
  have e: "estimateFeeValue ex_swap \<lparr>req_inSatoshis = True, req_address = Some (getAddress ex_app),
         req_speed = ''fast'', req_method = ''swap''\<rparr> = Inr 10000"
    by (simp add: ex_swap_def)
  have T: "int (total_satoshis [ex_unspent]) = 10000000"
    by (simp add: total_satoshis_def ex_unspent_def)
  have v1: "integerValue (multipliedBy 1 100000000) = 100000000"
    and v2: "integerValue (multipliedBy (1 / 100) 100000000) = 1000000"
    using integerValue_of_int [of 100000000] integerValue_of_int [of 1000000]
    by (simp_all add: multipliedBy_def)
  have sh: "show_int 10000000 = ''10000000''" "show_int 10000 = ''10000''"
    "show_int 100000000 = ''100000000''"
    by (simp_all add: show_int_def digit_def)
  have addr: "fst (createScript ex_app ex_values None) = ''2N-htlc''" "getAddress ex_app = ''m-owner''"
    "getId ex_app = (\<lambda>t. ''id-of-tx'')" "broadcastTx ex_swap = (\<lambda>t. Inr ''sent'')"
    by (simp_all add: createScript_def ex_app_def ex_swap_def Let_def)
  note low = fundScript_funding_transaction [OF f e T [symmetric] v1 [symmetric] refl, of ex_values True None]
  note high = fundScript_funding_transaction [OF f e T [symmetric] v2 [symmetric] refl, of ex_values True None]
  from low have "outcome (fundScript ex_swap ex_app ex_values 1 True None) =
        Rejected (Err (Error ''Total less than fee: 10000000 < 10000 + 100000000''))
      \<and> events (fundScript ex_swap ex_app ex_values 1 True None) = []"
    by (simp add: sh)
  moreover from high have "\<exists>txRaw.
         events (fundScript ex_swap ex_app ex_values (1 / 100) True None) =
           [TransactionHash ''id-of-tx'', Broadcast txRaw]
         \<and> outcome (fundScript ex_swap ex_app ex_values (1 / 100) True None) = Resolved ''sent''
         \<and> map spent_outpoint (ins txRaw) = [(''f00d'', 1, None)]
         \<and> outs txRaw = [\<lparr>out_address = ''2N-htlc'', out_value = 1000000\<rparr>,
                          \<lparr>out_address = ''m-owner'', out_value = 8990000\<rparr>]"
    by (simp add: addr ex_unspent_def)
  ultimately show ?thesis using f e by blast
qed

subsection \<open>Already withdrawn\<close>

text \<open>
  C6. When the outputs at the HTLC address total less than the fee: if a
  \<open>checkWithdraw\<close> probe is configured and reports a spend whose address equals the
  destination address up to the case of the letters, \<open>getWithdrawRawTransaction\<close> returns
  the reported transaction id marked as already withdrawn, and \<open>withdraw\<close> resolves with
  that id and hands nothing to \<open>broadcastTx\<close>; if no probe is configured, or the probe
  reports no spend or a spend to another address, \<open>getWithdrawRawTransaction\<close> fails with
  the error \<^verbatim>\<open>Total less than fee\<close>.
\<close>

theorem already_withdrawn_or_insufficient_funds:
  assumes "A = fst (createScript a (scriptVals data) hashName)"
    and "fetchUnspents this A = Inr unspents"
    and "estimateFeeValue this \<lparr>req_inSatoshis = True, req_address = Some A,
           req_speed = ''fast'', req_method = ''swap''\<rparr> = Inr quote"
    and "total_satoshis unspents < quote"
    and "dest = (case destinationAddress data of
                   None \<Rightarrow> getAddress a
                 | Some d \<Rightarrow> if d = [] then getAddress a else d)"
  shows "(checkWithdraw this = Some probe \<and> probe A = Inr (Some w)
            \<and> toLowerCase (w_address w) = toLowerCase dest \<longrightarrow>
            fst (getWithdrawRawTransaction this a data isRefund hashName) =
              Inr (AlreadyWithdrawed (w_txid w))
            \<and> outcome (withdraw this a data isRefund hashName) = Resolved (w_txid w)
            \<and> events (withdraw this a data isRefund hashName) = [])
       \<and> (checkWithdraw this = None
            \<or> checkWithdraw this = Some probe
                \<and> (probe A = Inr None
                     \<or> probe A = Inr (Some w) \<and> toLowerCase (w_address w) \<noteq> toLowerCase dest) \<longrightarrow>
            fst (getWithdrawRawTransaction this a data isRefund hashName) =
              Inl (Error (''Total less than fee: '' @ show_int (int (total_satoshis unspents))
                            @ '' < '' @ show_int (int quote))))"
proof -
  obtain script where cs: "createScript a (scriptVals data) hashName = (A, script)"
    using assms(1) by (cases "createScript a (scriptVals data) hashName") simp
  have raw: "checkWithdraw this = Some probe \<Longrightarrow> probe A = Inr (Some w) \<Longrightarrow>
      toLowerCase (w_address w) = toLowerCase dest \<Longrightarrow>
      getWithdrawRawTransaction this a data isRefund hashName =
        (Inr (AlreadyWithdrawed (w_txid w)),
         this\<lparr>feeValue := of_nat quote\<rparr>)"
    using assms(2-5) cs
    by (simp add: getWithdrawRawTransaction_def getTxFee_def Let_def integerValue_of_nat)
  have fail: "checkWithdraw this = None
            \<or> checkWithdraw this = Some probe
                \<and> (probe A = Inr None
                     \<or> probe A = Inr (Some w) \<and> toLowerCase (w_address w) \<noteq> toLowerCase dest) \<Longrightarrow>
      fst (getWithdrawRawTransaction this a data isRefund hashName) =
              Inl (Error (''Total less than fee: '' @ show_int (int (total_satoshis unspents))
                            @ '' < '' @ show_int (int quote)))"
    using assms(2-5) cs
    by (auto simp add: getWithdrawRawTransaction_def getTxFee_def Let_def integerValue_of_nat)
  show ?thesis
    using raw fail by (auto simp add: withdraw_def)
qed

theorem already_withdrawn_or_insufficient_funds_witness:
  "total_satoshis [] < (10000::nat)
   \<and> toLowerCase ''M-Owner'' = toLowerCase ''m-owner''
   \<and> fst (getWithdrawRawTransaction ex_spent ex_app ex_data False None) =
        Inr (AlreadyWithdrawed ''beef'')
   \<and> outcome (withdraw ex_spent ex_app ex_data False None) = Resolved ''beef''
   \<and> events (withdraw ex_spent ex_app ex_data False None) = []
   \<and> fst (getWithdrawRawTransaction (ex_spent\<lparr>checkWithdraw := None\<rparr>) ex_app ex_data False None) =
        Inl (Error ''Total less than fee: 0 < 10000'')"
proof -
  let ?A = "fst (createScript ex_app (scriptVals ex_data) None)"
  let ?probe = "\<lambda>addr :: address. Inr (Some \<lparr>w_address = ''M-Owner'', w_txid = ''beef''\<rparr>) :: js_error + withdrawInfo option"
  have t: "total_satoshis [] < (10000::nat)"
    by (simp add: total_satoshis_def)
  have l: "toLowerCase ''M-Owner'' = toLowerCase ''m-owner''"
    by (simp add: toLowerCase_def)
  have d: "''m-owner'' = (case destinationAddress ex_data of
                   None \<Rightarrow> getAddress ex_app
                 | Some d \<Rightarrow> if d = [] then getAddress ex_app else d)"
    by (simp add: ex_data_def ex_app_def)
  have sh: "show_int 0 = ''0''" "show_int 10000 = ''10000''"
    by (simp_all add: show_int_def digit_def)
  have "fetchUnspents ex_spent ?A = Inr []"
    and "estimateFeeValue ex_spent \<lparr>req_inSatoshis = True, req_address = Some ?A,
           req_speed = ''fast'', req_method = ''swap''\<rparr> = Inr 10000"
    and "checkWithdraw ex_spent = Some ?probe"
    by (simp_all add: ex_spent_def ex_swap_def)
  from already_withdrawn_or_insufficient_funds [OF refl this(1) this(2) t d,
      of ?probe "\<lparr>w_address = ''M-Owner'', w_txid = ''beef''\<rparr>" False] this(3) l
  have yes: "fst (getWithdrawRawTransaction ex_spent ex_app ex_data False None) =
        Inr (AlreadyWithdrawed ''beef'')
     \<and> outcome (withdraw ex_spent ex_app ex_data False None) = Resolved ''beef''
     \<and> events (withdraw ex_spent ex_app ex_data False None) = []"
    by simp
  have "fetchUnspents (ex_spent\<lparr>checkWithdraw := None\<rparr>) ?A = Inr []"
    and "estimateFeeValue (ex_spent\<lparr>checkWithdraw := None\<rparr>) \<lparr>req_inSatoshis = True, req_address = Some ?A,
           req_speed = ''fast'', req_method = ''swap''\<rparr> = Inr 10000"
    by (simp_all add: ex_spent_def ex_swap_def)
  from already_withdrawn_or_insufficient_funds [OF refl this(1) this(2) t d, of ?probe _ False]
  have no: "fst (getWithdrawRawTransaction (ex_spent\<lparr>checkWithdraw := None\<rparr>) ex_app ex_data False None) =
        Inl (Error ''Total less than fee: 0 < 10000'')"
    by (simp add: sh total_satoshis_def)
  from t l yes no show ?thesis by blast
qed

subsection \<open>checkScript\<close>

lemma checkScript_run:
  assumes "fetchUnspents this (fst (createScript a data hashName)) = Inr unspents"
    and "c = (case exp_confidence e of Some c' \<Rightarrow> c' | None \<Rightarrow> 95 / 100)"
    and "confident = fst (filterConfidentUnspents this unspents (Some c))"
    and "expectedValue = integerValue (multipliedBy (exp_value e) 100000000)"
    and "ok = (expectedValue \<le> int (total_satoshis unspents)
               \<and> exp_lockTime e \<le> lockTime data
               \<and> exp_recipientPublicKey e = recipientPublicKey data
               \<and> expectedValue \<le> int (total_satoshis confident))"
  shows "(fst (checkScript this a data e hashName) = Inr None) = ok
       \<and> (\<not> ok \<longrightarrow> (\<exists>diagnostic. fst (checkScript this a data e hashName) = Inr (Some diagnostic)))"
proof -
  obtain scriptAddress script
    where cs: "createScript a data hashName = (scriptAddress, script)"
    by (cases "createScript a data hashName")
  obtain this' where fc: "filterConfidentUnspents this unspents (Some c) = (confident, this')"
    using assms(3) by (cases "filterConfidentUnspents this unspents (Some c)") simp
  from assms(1,2,4,5) cs fc show ?thesis
    by (auto simp add: checkScript_def Let_def)
qed

text \<open>
  C4. Once the outputs at the script address are fetched, \<open>checkScript\<close> returns the
  falsy \<^verbatim>\<open>undefined\<close> if and only if the expected value is at most the total of the
  outputs, the expected lock time is at most the lock time of the script values, the two
  recipient keys are equal, and the expected value is at most the total of the outputs
  that pass the confidence filter; in every other case it returns one of its diagnostic
  strings and does not throw.
\<close>

theorem checkScript_ok_iff:
  assumes "fetchUnspents this (fst (createScript a data hashName)) = Inr unspents"
    and "c = (case exp_confidence e of Some c' \<Rightarrow> c' | None \<Rightarrow> 95 / 100)"
    and "confident = fst (filterConfidentUnspents this unspents (Some c))"
    and "expectedValue = integerValue (multipliedBy (exp_value e) 100000000)"
    and "ok = (expectedValue \<le> int (total_satoshis unspents)
               \<and> exp_lockTime e \<le> lockTime data
               \<and> exp_recipientPublicKey e = recipientPublicKey data
               \<and> expectedValue \<le> int (total_satoshis confident))"
  shows "(fst (checkScript this a data e hashName) = Inr None) = ok
       \<and> (\<not> ok \<longrightarrow> (\<exists>diagnostic. fst (checkScript this a data e hashName) = Inr (Some diagnostic)))"
  using checkScript_run [OF assms] .

theorem checkScript_ok_iff_witness:
  "fetchUnspents ex_swap (fst (createScript ex_app ex_values None)) = Inr [ex_unspent]
   \<and> fst (filterConfidentUnspents ex_swap [ex_unspent] (Some (95 / 100))) = [ex_unspent]
   \<and> integerValue (multipliedBy (exp_value ex_expected) 100000000) = 10000000
   \<and> total_satoshis [ex_unspent] = 10000000
   \<and> exp_lockTime ex_expected \<le> lockTime ex_values
   \<and> exp_recipientPublicKey ex_expected = recipientPublicKey ex_values
   \<and> fst (checkScript ex_swap ex_app ex_values ex_expected None) = Inr None
   \<and> fst (checkScript ex_swap ex_app ex_values (ex_expected\<lparr>exp_lockTime := 1700000001\<rparr>) None) \<noteq> Inr None"
proof -
  have f: "fetchUnspents ex_swap (fst (createScript ex_app ex_values None)) = Inr [ex_unspent]"
    by (simp add: ex_swap_def)
  have c: "95 / 100 = (case exp_confidence ex_expected of Some c' \<Rightarrow> c' | None \<Rightarrow> 95 / 100)"
    "95 / 100 = (case exp_confidence (ex_expected\<lparr>exp_lockTime := 1700000001\<rparr>) of
                   Some c' \<Rightarrow> c' | None \<Rightarrow> 95 / 100)"
    by (simp_all add: ex_expected_def)
  have k: "fst (filterConfidentUnspents ex_swap [ex_unspent] (Some (95 / 100))) = [ex_unspent]"
    using toNumber_le_1 [of "95 / 100"]
    by (simp add: filterConfidentUnspents_def fetchConfidence_def confirmationsToConfidence_def
        ex_unspent_def Let_def)
  have v: "integerValue (multipliedBy (exp_value ex_expected) 100000000) = 10000000"
    "integerValue (multipliedBy (exp_value (ex_expected\<lparr>exp_lockTime := 1700000001\<rparr>)) 100000000) = 10000000"
    using integerValue_of_int [of 10000000] by (simp_all add: multipliedBy_def ex_expected_def)
  have t: "total_satoshis [ex_unspent] = 10000000"
    by (simp add: total_satoshis_def ex_unspent_def)
  have l: "exp_lockTime ex_expected \<le> lockTime ex_values"
    "\<not> exp_lockTime (ex_expected\<lparr>exp_lockTime := 1700000001\<rparr>) \<le> lockTime ex_values"
    by (simp_all add: ex_expected_def ex_values_def)
  have r: "exp_recipientPublicKey ex_expected = recipientPublicKey ex_values"
    by (simp add: ex_expected_def ex_values_def)
  from checkScript_ok_iff [OF f c(1) k [symmetric] v(1) [symmetric] refl] t l(1) r
  have yes: "fst (checkScript ex_swap ex_app ex_values ex_expected None) = Inr None"
    by simp
  from checkScript_ok_iff [OF f c(2) k [symmetric] v(2) [symmetric] refl] l(2)
  have no: "fst (checkScript ex_swap ex_app ex_values (ex_expected\<lparr>exp_lockTime := 1700000001\<rparr>) None) \<noteq> Inr None"
    by simp
  from f k v(1) t l(1) r yes no show ?thesis by blast
qed

subsection \<open>The confidence filter\<close>

lemma spec_fee_ratio_min: "0 < fstar \<Longrightarrow> spec_fee_ratio f fstar = min 1 (of_nat f / of_nat fstar)"
  by (simp add: spec_fee_ratio_def)















subsection \<open>The fee without an oracle\<close>

lemma getTxFee_without_oracle:
  assumes "opt_estimateFeeValue options = None" and "constructor options = Inr this"
  shows "getTxFee this inSatoshis sz speed addr = (Inr 0, this\<lparr>feeValue := 0\<rparr>)"
proof -
  from assms have "estimateFeeValue this = (\<lambda>request. Inr 0)"
    by (auto simp add: constructor_def split: option.splits)
  moreover have "dividedBy 0 100000000 = 0"
    by (simp add: dividedBy_def ROUNDING_MODE_def floor_eq_iff)
  ultimately show ?thesis
    by (simp add: getTxFee_def Let_def dp0_def)
qed

text \<open>
  C7. An engine constructed without \<open>estimateFeeValue\<close> keeps 546 in its field
  \<open>feeValue\<close>, but no method reads the field: \<open>getTxFee\<close> answers 0, the value of the
  stand-in oracle, and writes it to the field, and the transaction built for a withdrawal
  of 10000000 satoshis pays all of them out, with a fee of 0 and not of 546.
\<close>

theorem fee_without_oracle_is_zero:
  "(case constructor ex_options of
      Inl err \<Rightarrow> False
    | Inr this \<Rightarrow>
        feeValue this = 546
        \<and> getTxFee this True None None (Some ''2N-htlc'') = (Inr 0, this\<lparr>feeValue := 0\<rparr>)
        \<and> (case fst (getWithdrawRawTransaction this ex_app ex_data False None) of
              Inr (TxRaw txRaw txId) \<Rightarrow>
                outs txRaw = [\<lparr>out_address = ''m-owner'', out_value = 10000000\<rparr>]
            | _ \<Rightarrow> False))"
proof -
  obtain engine where made: "constructor ex_options = Inr engine"
    by (simp add: constructor_def ex_options_def)
  then have fields: "feeValue engine = 546" "fetchUnspents engine = (\<lambda>addr. Inr [ex_unspent])"
    by (auto simp add: constructor_def ex_options_def)
  have fee: "getTxFee engine inSatoshis sz speed addr = (Inr 0, engine\<lparr>feeValue := 0\<rparr>)"
    for inSatoshis sz speed addr
    using getTxFee_without_oracle [OF _ made] by (simp add: ex_options_def)
  have quote: "estimateFeeValue engine request = Inr 0" for request
    using made by (auto simp add: constructor_def ex_options_def)
  have total: "total_satoshis [ex_unspent] = 10000000"
    by (simp add: total_satoshis_def ex_unspent_def)
  from getWithdrawRawTransaction_builds [of engine ex_app ex_data None "[ex_unspent]" 0 False]
  obtain txRaw where "fst (getWithdrawRawTransaction engine ex_app ex_data False None) =
      Inr (TxRaw txRaw (getId ex_app txRaw))"
    and "outs txRaw = [\<lparr>out_address = ''m-owner'', out_value = 10000000\<rparr>]"
    by (auto simp add: fields quote total ex_data_def ex_app_def)
  with made fields(1) fee show ?thesis by simp
qed

subsection \<open>After the broadcast\<close>

lemma withdraw_catch_non_final:
  "regex_test ''non-final'' text \<Longrightarrow> withdraw_catch (Rejection m (Some text)) = Str ''Try it later''"
  by (simp add: withdraw_catch_def)

lemma withdraw_catch_address_empty:
  "withdraw_catch (Error (''Total less than fee: '' @ show_int 0 @ '' < '' @ show_int fee)) =
     Str ''Address is empty''"
proof -
  have m: "''Total less than fee: '' @ show_int 0 @ '' < '' @ show_int fee =
      ''Total less than fee: 0'' @ ('' < '' @ show_int fee)"
    by (simp add: show_int_def digit_def)
  have "regex_test ''Total less than fee: 0'' (''Total less than fee: 0'' @ ('' < '' @ show_int fee))"
    by (rule regex_test_prefix)
  moreover have "regex_test ''Total less than fee'' (''Total less than fee'' @ ('': 0 < '' @ show_int fee))"
    by (rule regex_test_prefix)
  ultimately show ?thesis
    unfolding withdraw_catch_def m by simp
qed

text \<open>
  What \<open>withdraw\<close> does once a transaction is built: the broadcast, the delay, the
  look-up of the transaction; when the look-up does not find it the promise is rejected
  with the fixed string, whatever the transaction id.
\<close>

lemma withdraw_after_broadcast:
  assumes "getWithdrawRawTransaction this a data isRefund hashName = (Inr (TxRaw txHex txId), this')"
    and "broadcastTx this' txHex = Inr result"
    and "checkTX this' txId = Inr found"
  shows "events (withdraw this a data isRefund hashName) = [Broadcast txHex, WaitDelay 10]"
    and "outcome (withdraw this a data isRefund hashName) =
           (if found then Resolved txId else Rejected (Str ''TX not found. Try it later. ''))"
  using assms by (simp_all add: withdraw_def reject_def)

text \<open>The two translations of the \<^verbatim>\<open>catch\<close> block, as \<open>withdraw\<close> makes them.\<close>

lemma withdraw_try_later:
  assumes "getWithdrawRawTransaction this a data isRefund hashName = (Inr (TxRaw txHex txId), this')"
    and "broadcastTx this' txHex = Inl (Rejection m (Some text))"
    and "regex_test ''non-final'' text"
  shows "outcome (withdraw this a data isRefund hashName) = Rejected (Str ''Try it later'')"
  using assms by (simp add: withdraw_def withdraw_catch_non_final)

lemma withdraw_address_empty:
  assumes "fetchUnspents this (fst (createScript a (scriptVals data) hashName)) = Inr unspents"
    and "estimateFeeValue this \<lparr>req_inSatoshis = True,
           req_address = Some (fst (createScript a (scriptVals data) hashName)),
           req_speed = ''fast'', req_method = ''swap''\<rparr> = Inr quote"
    and "total_satoshis unspents = 0" and "0 < quote" and "checkWithdraw this = None"
  shows "outcome (withdraw this a data isRefund hashName) = Rejected (Str ''Address is empty'')"
proof -
  obtain scriptAddress script
    where cs: "createScript a (scriptVals data) hashName = (scriptAddress, script)"
    by (cases "createScript a (scriptVals data) hashName")
  from assms cs have "getWithdrawRawTransaction this a data isRefund hashName =
      (Inl (Error (''Total less than fee: '' @ show_int 0 @ '' < '' @ show_int (int quote))),
       this\<lparr>feeValue := of_nat quote\<rparr>)"
    by (simp add: getWithdrawRawTransaction_def getTxFee_def Let_def integerValue_of_nat)
  then show ?thesis
    unfolding withdraw_def
    by (simp only: prod.case sum.case withdraw_catch_address_empty run.select_convs)
qed

text \<open>
  C8. A withdrawal from an HTLC that holds 10000000 satoshis, through a gateway that
  accepts the broadcast and then has no information on the transaction: the promise is
  rejected with the string \<^verbatim>\<open>TX not found. Try it later. \<close> alone. The transaction id
  \<^verbatim>\<open>id-of-tx\<close>, the second argument of \<^verbatim>\<open>reject\<close>, is not part of the reason.
\<close>

theorem tx_not_found_drops_txid:
  "checkTX ex_swap ''id-of-tx'' = Inr False
   \<and> outcome (withdraw ex_swap ex_app ex_data False None) =
       Rejected (Str ''TX not found. Try it later. '')
   \<and> length (events (withdraw ex_swap ex_app ex_data False None)) = 2
   \<and> last (events (withdraw ex_swap ex_app ex_data False None)) = WaitDelay 10"
proof -
  have total: "total_satoshis [ex_unspent] = 10000000"
    by (simp add: total_satoshis_def ex_unspent_def)
  from getWithdrawRawTransaction_builds [of ex_swap ex_app ex_data None "[ex_unspent]" 10000 False]
  obtain txRaw where raw: "getWithdrawRawTransaction ex_swap ex_app ex_data False None =
      (Inr (TxRaw txRaw ''id-of-tx''), ex_swap\<lparr>feeValue := 10000\<rparr>)"
    by (auto simp add: total ex_swap_def ex_app_def)
  have sent: "broadcastTx (ex_swap\<lparr>feeValue := 10000\<rparr>) txRaw = Inr ''sent''"
    by (simp add: ex_swap_def)
  have lost: "checkTX (ex_swap\<lparr>feeValue := 10000\<rparr>) ''id-of-tx'' = Inr False"
    "checkTX ex_swap ''id-of-tx'' = Inr False"
    by (simp_all add: checkTX_def ex_swap_def)
  from withdraw_after_broadcast [OF raw sent lost(1)] lost(2) show ?thesis
    by simp
qed

subsection \<open>Amounts in BTC\<close>

lemma integerValue_nearest: "integerValue (multipliedBy amount 100000000) = nearest_satoshis amount"
proof (cases "amount < 0")
  case True
  then have "amount * 100000000 < 0" by simp
  then show ?thesis using True
    by (simp add: integerValue_def ROUNDING_MODE_def multipliedBy_def nearest_satoshis_def
        ceiling_def abs_if)
next
  case False
  then have "0 \<le> amount * 100000000" by simp
  then show ?thesis using False
    by (simp add: integerValue_def ROUNDING_MODE_def multipliedBy_def nearest_satoshis_def abs_if)
qed

lemma nearest_satoshis_close: "2 * \<bar>of_int (nearest_satoshis amount) - amount * 100000000\<bar> \<le> (1::rat)"
  unfolding nearest_satoshis_def by (simp add: abs_if) linarith

lemma nearest_satoshis_exact: "nearest_satoshis (of_int n / 100000000) = n"
  using integerValue_nearest [of "of_int n / 100000000"] integerValue_of_int [of n]
  by (simp add: multipliedBy_def)

lemma integerValue_rounded:
  "integerValue (multipliedBy (of_int (nearest_satoshis amount) / 100000000) 100000000) =
     integerValue (multipliedBy amount 100000000)"
  by (simp only: integerValue_nearest nearest_satoshis_exact)

lemma fundScript_amount:
  "fundScript this a vals (of_int (nearest_satoshis amount) / 100000000) callback hashName =
     fundScript this a vals amount callback hashName"
  unfolding fundScript_def integerValue_rounded ..

lemma checkScript_amount:
  "checkScript this a data (e\<lparr>exp_value := of_int (nearest_satoshis (exp_value e)) / 100000000\<rparr>)
       hashName =
     checkScript this a data e hashName"
proof -
  let ?e = "e\<lparr>exp_value := of_int (nearest_satoshis (exp_value e)) / 100000000\<rparr>"
  have "exp_lockTime ?e = exp_lockTime e" "exp_recipientPublicKey ?e = exp_recipientPublicKey e"
    "exp_confidence ?e = exp_confidence e"
    "integerValue (multipliedBy (exp_value ?e) 100000000) =
       integerValue (multipliedBy (exp_value e) 100000000)"
    by (simp_all add: integerValue_rounded)
  then show ?thesis
    unfolding checkScript_def by (simp only:)
qed

text \<open>
  C9, as the code has it. An amount in BTC becomes satoshis by a multiplication by
  \<open>10^8\<close> and a rounding to the nearest integer, a tie away from zero; this is the
  funding value of \<open>fundScript\<close> (the HTLC output of the transaction it broadcasts, the
  number it compares with the total) and the expected value of \<open>checkScript\<close> (the
  number it compares with the total and prints). The result is within half a satoshi of
  the amount, and is the amount itself when that is a whole number of satoshis.
\<close>

theorem amounts_rounded_to_nearest_satoshi:
  assumes "fetchUnspents this (getAddress a) = Inr owned"
    and "estimateFeeValue this \<lparr>req_inSatoshis = True, req_address = Some (getAddress a),
           req_speed = ''fast'', req_method = ''swap''\<rparr> = Inr quote"
    and "fetchUnspents this (fst (createScript a vals hashName)) = Inr locked"
  shows "(int quote + nearest_satoshis amount \<le> int (total_satoshis owned) \<longrightarrow>
           (\<exists>txRaw. last (events (fundScript this a vals amount callback hashName)) = Broadcast txRaw
              \<and> map out_value (outs txRaw) =
                  [nearest_satoshis amount,
                   int (total_satoshis owned) - nearest_satoshis amount - int quote]))
       \<and> (int (total_satoshis owned) < int quote + nearest_satoshis amount \<longrightarrow>
           events (fundScript this a vals amount callback hashName) = [])
       \<and> (int (total_satoshis locked) < nearest_satoshis (exp_value e) \<longrightarrow>
           fst (checkScript this a vals e hashName) =
             Inr (Some (ExpectedScriptValue (nearest_satoshis (exp_value e)) (total_satoshis locked)
                          (fst (createScript a vals hashName)))))
       \<and> (fst (checkScript this a vals e hashName) = Inr None \<longrightarrow>
           nearest_satoshis (exp_value e) \<le> int (total_satoshis locked))
       \<and> 2 * \<bar>of_int (nearest_satoshis amount) - amount * 100000000\<bar> \<le> (1::rat)
       \<and> nearest_satoshis (of_int n / 100000000) = n"
proof -
  let ?r = "fundScript this a vals amount callback hashName"
  note run = fundScript_run [OF assms(1,2) refl refl refl, of amount vals callback hashName,
      unfolded integerValue_nearest]
  have built: "int quote + nearest_satoshis amount \<le> int (total_satoshis owned) \<Longrightarrow>
      \<exists>txRaw. last (events ?r) = Broadcast txRaw
         \<and> map out_value (outs txRaw) =
             [nearest_satoshis amount,
              int (total_satoshis owned) - nearest_satoshis amount - int quote]"
    using run by auto
  have refused: "int (total_satoshis owned) < int quote + nearest_satoshis amount \<Longrightarrow>
      events ?r = []"
    using run by auto
  obtain script where cs: "createScript a vals hashName = (fst (createScript a vals hashName), script)"
    by (cases "createScript a vals hashName") simp
  have short: "int (total_satoshis locked) < nearest_satoshis (exp_value e) \<Longrightarrow>
      fst (checkScript this a vals e hashName) =
        Inr (Some (ExpectedScriptValue (nearest_satoshis (exp_value e)) (total_satoshis locked)
                     (fst (createScript a vals hashName))))"
    using assms(3) unfolding checkScript_def integerValue_nearest
    by (subst cs) (simp add: Let_def split: prod.splits)
  have ok: "fst (checkScript this a vals e hashName) = Inr None \<Longrightarrow>
      nearest_satoshis (exp_value e) \<le> int (total_satoshis locked)"
    using checkScript_run [OF assms(3) refl refl refl refl, of e, unfolded integerValue_nearest]
    by simp
  from built refused short ok nearest_satoshis_close nearest_satoshis_exact show ?thesis
    by blast
qed

theorem amounts_rounded_to_nearest_satoshi_witness:
  "nearest_satoshis (3 / 200000000) = 2
   \<and> (\<exists>txRaw. last (events (fundScript ex_swap ex_app ex_values (3 / 200000000) False None)) =
                 Broadcast txRaw
        \<and> map out_value (outs txRaw) = [2, 9989998])
   \<and> fst (checkScript ex_swap ex_app ex_values (ex_expected\<lparr>exp_value := 1\<rparr>) None) =
        Inr (Some (ExpectedScriptValue 100000000 10000000 ''2N-htlc''))"
proof -
  have f: "fetchUnspents ex_swap (getAddress ex_app) = Inr [ex_unspent]"
    "fetchUnspents ex_swap (fst (createScript ex_app ex_values None)) = Inr [ex_unspent]"
    by (simp_all add: ex_swap_def)
  have q: "estimateFeeValue ex_swap \<lparr>req_inSatoshis = True, req_address = Some (getAddress ex_app),
           req_speed = ''fast'', req_method = ''swap''\<rparr> = Inr 10000"
    by (simp add: ex_swap_def)
  have t: "total_satoshis [ex_unspent] = 10000000"
    by (simp add: total_satoshis_def ex_unspent_def)
  have n: "nearest_satoshis (3 / 200000000) = 2"
    "nearest_satoshis (exp_value (ex_expected\<lparr>exp_value := 1\<rparr>)) = 100000000"
    using nearest_satoshis_exact [of 100000000] by (simp_all add: nearest_satoshis_def)
  have addr: "fst (createScript ex_app ex_values None) = ''2N-htlc''"
    by (simp add: createScript_def ex_app_def Let_def)
  from amounts_rounded_to_nearest_satoshi [OF f(1) q f(2), of "3 / 200000000" False
      "ex_expected\<lparr>exp_value := 1\<rparr>"] n
  show ?thesis
    by (simp add: t addr)
qed

text \<open>
  C9, as the specification has it, fails: for the amount 0.000000015 BTC the truncation is
  1 satoshi, but the code works with 2. With one output of 1 satoshi and a fee of 0,
  \<open>fundScript\<close> refuses to fund (the total 1 is less than 2) and \<open>checkScript\<close>
  reports an expected value of 2 against a total of 1.
\<close>

theorem truncation_counterexample:
  "spec_truncated_satoshis (3 / 200000000) = 1
   \<and> integerValue (multipliedBy (3 / 200000000) 100000000) = 2
   \<and> outcome (fundScript ex_dust ex_app ex_values (3 / 200000000) False None) =
        Rejected (Err (Error ''Total less than fee: 1 < 0 + 2''))
   \<and> fst (checkScript ex_dust ex_app ex_values (ex_expected\<lparr>exp_value := 3 / 200000000\<rparr>) None) =
        Inr (Some (ExpectedScriptValue 2 1 ''2N-htlc''))"
proof -
  have f: "fetchUnspents ex_dust (getAddress ex_app) = Inr [ex_satoshi]"
    "fetchUnspents ex_dust (fst (createScript ex_app ex_values None)) = Inr [ex_satoshi]"
    by (simp_all add: ex_dust_def)
  have q: "estimateFeeValue ex_dust \<lparr>req_inSatoshis = True, req_address = Some (getAddress ex_app),
           req_speed = ''fast'', req_method = ''swap''\<rparr> = Inr 0"
    by (simp add: ex_dust_def)
  have t: "total_satoshis [ex_satoshi] = 1"
    by (simp add: total_satoshis_def ex_satoshi_def)
  have v: "integerValue (multipliedBy (3 / 200000000) 100000000) = 2"
    by (simp add: integerValue_nearest nearest_satoshis_def)
  have tr: "spec_truncated_satoshis (3 / 200000000) = 1"
    by (simp add: spec_truncated_satoshis_def floor_eq_iff)
  have sh: "show_int 1 = ''1''" "show_int 0 = ''0''" "show_int 2 = ''2''"
    by (simp_all add: show_int_def digit_def)
  have addr: "fst (createScript ex_app ex_values None) = ''2N-htlc''"
    by (simp add: createScript_def ex_app_def Let_def)
  from fundScript_run [OF f(1) q refl refl refl, of "3 / 200000000" ex_values False None]
  have fund: "outcome (fundScript ex_dust ex_app ex_values (3 / 200000000) False None) =
        Rejected (Err (Error ''Total less than fee: 1 < 0 + 2''))"
    by (simp add: v t sh)
  obtain script where cs: "createScript ex_app ex_values None = (''2N-htlc'', script)"
    using addr by (cases "createScript ex_app ex_values None") simp
  have "exp_value (ex_expected\<lparr>exp_value := 3 / 200000000\<rparr>) = 3 / 200000000"
    by simp
  with f(2) have "fst (checkScript ex_dust ex_app ex_values (ex_expected\<lparr>exp_value := 3 / 200000000\<rparr>) None) =
        Inr (Some (ExpectedScriptValue 2 1 ''2N-htlc''))"
    unfolding checkScript_def
    by (subst cs) (simp add: addr v t Let_def split: prod.splits)
  with tr v fund show ?thesis by blast
qed

end
